theory Spec2Isabelle
  imports Main
begin

section \<open>Library outreach: the contact store, the templates and the campaign runner\<close>

text \<open>
  This theory embeds \<^verbatim>\<open>scripts/library_outreach.py\<close> (class \<^verbatim>\<open>LibraryOutreach\<close>).

  Conventions of the embedding:
  \<^item> a Python \<^verbatim>\<open>str\<close> is a \<open>string\<close> holding its UTF-8 bytes, so a character beyond
    ASCII is written as its bytes (\<open>CHR 0xC3, CHR 0xB1\<close> for n with tilde);
  \<^item> a value that is a \<^verbatim>\<open>str\<close> or \<^verbatim>\<open>None\<close> is a \<open>string option\<close>;
  \<^item> a CSV file is the list of records that \<^verbatim>\<open>csv.reader\<close> yields from it, each a list
    of strings, and \<^verbatim>\<open>csv.writer\<close> stores the records it is given: two files that read
    the same are not told apart, and quoting and line ends, also inside a field, are the
    csv module's and are not modelled;
  \<^item> the JSON campaign file is the list of campaign records that \<^verbatim>\<open>json.load\<close> yields;
  \<^item> a file that does not exist is \<open>None\<close>;
  \<^item> \<^verbatim>\<open>print\<close> is not modelled.
\<close>

subsection \<open>Dictionaries as \<^verbatim>\<open>csv.DictReader\<close> builds them\<close>

text \<open>
  A row dictionary keeps its keys in insertion order. Under a string key it holds a
  string or \<^verbatim>\<open>None\<close> (\<^verbatim>\<open>restval\<close>, for a record shorter than the header); under the key
  \<^verbatim>\<open>None\<close> (\<^verbatim>\<open>restkey\<close>) it holds the list of surplus fields of a record longer than the
  header.
\<close>

datatype entry = Field string "string option" | Extra "string list"

type_synonym row = "entry list"

type_synonym csv_file = "string list list"

fun entry_key :: "entry \<Rightarrow> string option" where
  "entry_key (Field k v) = Some k"
| "entry_key (Extra xs) = None"

definition keys :: "row \<Rightarrow> string option list" where
  "keys d = map entry_key d"

text \<open>\<open>lookup d k\<close> is \<^verbatim>\<open>d[k]\<close>: \<open>None\<close> stands for the \<^verbatim>\<open>KeyError\<close>.\<close>

fun lookup :: "row \<Rightarrow> string \<Rightarrow> string option option" where
  "lookup [] k = None"
| "lookup (Field k' v # d) k = (if k' = k then Some v else lookup d k)"
| "lookup (Extra xs # d) k = lookup d k"

text \<open>\<open>get d k\<close> is \<^verbatim>\<open>d.get(k)\<close> and \<open>get_default d k x\<close> is \<^verbatim>\<open>d.get(k, x)\<close>.\<close>

definition get :: "row \<Rightarrow> string \<Rightarrow> string option" where
  "get d k = (case lookup d k of None \<Rightarrow> None | Some v \<Rightarrow> v)"

definition get_default :: "row \<Rightarrow> string \<Rightarrow> string \<Rightarrow> string option" where
  "get_default d k x = (case lookup d k of None \<Rightarrow> Some x | Some v \<Rightarrow> v)"

text \<open>
  \<open>setitem d k v\<close> is \<^verbatim>\<open>d[k] = v\<close>: an existing key keeps its place, a new key goes
  last. \<open>set_rest d xs\<close> is \<^verbatim>\<open>d[None] = xs\<close>.
\<close>

fun setitem :: "row \<Rightarrow> string \<Rightarrow> string option \<Rightarrow> row" where
  "setitem [] k v = [Field k v]"
| "setitem (Field k' v' # d) k v =
     (if k' = k then Field k v # d else Field k' v' # setitem d k v)"
| "setitem (Extra xs # d) k v = Extra xs # setitem d k v"

fun set_rest :: "row \<Rightarrow> string list \<Rightarrow> row" where
  "set_rest [] xs = [Extra xs]"
| "set_rest (Extra ys # d) xs = Extra xs # d"
| "set_rest (Field k v # d) xs = Field k v # set_rest d xs"

text \<open>\<^verbatim>\<open>dict(zip(fieldnames, row))\<close>: a repeated field name keeps its first place and its last value.\<close>

definition dict_zip :: "string list \<Rightarrow> string list \<Rightarrow> row" where
  "dict_zip fieldnames r = foldl (\<lambda>d (k, v). setitem d k (Some v)) [] (zip fieldnames r)"

text \<open>
  \<^verbatim>\<open>DictReader.__next__\<close> on one non-blank record:
  \<^verbatim>\<open>
  d = dict(zip(self.fieldnames, row))
  lf = len(self.fieldnames); lr = len(row)
  if lf < lr:   d[self.restkey] = row[lf:]
  elif lf > lr: for key in self.fieldnames[lr:]: d[key] = self.restval
  \<close>
\<close>

definition read_row :: "string list \<Rightarrow> string list \<Rightarrow> row" where
  "read_row fieldnames r =
     (let d = dict_zip fieldnames r; lf = length fieldnames; lr = length r in
      if lf < lr then set_rest d (drop lf r)
      else if lf > lr then foldl (\<lambda>d k. setitem d k None) d (drop lr fieldnames)
      else d)"

text \<open>
  \<^verbatim>\<open>list(csv.DictReader(f))\<close>: the first record is the header, blank records (\<open>[]\<close>) after
  it are skipped, and an empty file yields no row.
\<close>

definition DictReader :: "csv_file \<Rightarrow> row list" where
  "DictReader f =
     (case f of
        [] \<Rightarrow> []
      | fieldnames # recs \<Rightarrow> map (read_row fieldnames) (filter (\<lambda>r. r \<noteq> []) recs))"

subsection \<open>The files and the clock\<close>

text \<open>One campaign record of \<^verbatim>\<open>campaigns.json\<close>; its results are dictionaries.\<close>

record campaign_data =
  campaign_id :: string
  campaign_fecha :: string
  campaign_region :: "string option"
  campaign_idioma :: "string option"
  total_enviados :: nat
  modo :: string
  resultados :: "row list"

text \<open>
  The state the class works on: \<^verbatim>\<open>libraries.csv\<close>, \<^verbatim>\<open>campaigns.json\<close>, the files of the
  reports directory by name, and the number of times the clock has been read.
\<close>

record world =
  libraries_db :: "csv_file option"
  campaigns_db :: "campaign_data list option"
  reports :: "string \<rightharpoonup> csv_file"
  ticks :: nat

text \<open>
  What \<^verbatim>\<open>datetime.now()\<close> returns, as the three renderings the class asks of it:
  \<^verbatim>\<open>strftime('%Y-%m-%d')\<close>, \<^verbatim>\<open>isoformat()\<close> and \<^verbatim>\<open>strftime('%Y%m%d_%H%M%S')\<close>.
\<close>

record datetime =
  ymd :: string
  isoformat :: string
  stamp :: string

text \<open>
  The Python runtime around the class: the clock (its \<open>n\<close>-th reading) and \<^verbatim>\<open>str\<close> of
  a list of strings, which \<^verbatim>\<open>csv.writer\<close> applies to a cell that is a list.
\<close>

record runtime =
  clock :: "nat \<Rightarrow> datetime"
  str_list :: "string list \<Rightarrow> string"

definition now :: "runtime \<Rightarrow> world \<Rightarrow> datetime \<times> world" where
  "now rt w = (clock rt (ticks w), w\<lparr>ticks := Suc (ticks w)\<rparr>)"

datatype error = KeyError string | ValueError | FileNotFoundError

subsection \<open>\<^verbatim>\<open>create_library_template\<close>\<close>

text \<open>The local \<^verbatim>\<open>template\<close>: the header and the twenty example libraries.\<close>

definition template :: csv_file where
  "template = [
    [''nombre'', ''email'', ''ciudad'', ''pais'', ''region'', ''tipo'', ''idioma_preferido'', ''contactado'', ''fecha_contacto'', ''respuesta'', ''notas''],
    [(''Biblioteca Nacional de Espa'' @ [CHR 0xC3, CHR 0xB1] @ ''a''), ''contacto@bne.es'', ''Madrid'', (''Espa'' @ [CHR 0xC3, CHR 0xB1] @ ''a''), ''Europa'', ''Nacional'', ''ES'', ''No'', '''', '''', ''''],
    [(''Biblioteca P'' @ [CHR 0xC3, CHR 0xBA] @ ''blica Municipal de Madrid''), ''bibliotecas@madrid.es'', ''Madrid'', (''Espa'' @ [CHR 0xC3, CHR 0xB1] @ ''a''), (''Espa'' @ [CHR 0xC3, CHR 0xB1] @ ''a''), ''Publica'', ''ES'', ''No'', '''', '''', ''''],
    [''Biblioteca de Catalunya'', ''biblioteca@bc.cat'', ''Barcelona'', (''Espa'' @ [CHR 0xC3, CHR 0xB1] @ ''a''), (''Espa'' @ [CHR 0xC3, CHR 0xB1] @ ''a''), ''Nacional'', ''ES'', ''No'', '''', '''', ''''],
    [(''Biblioteca P'' @ [CHR 0xC3, CHR 0xBA] @ ''blica de Andaluc'' @ [CHR 0xC3, CHR 0xAD] @ ''a''), ''biblioteca@juntadeandalucia.es'', ''Sevilla'', (''Espa'' @ [CHR 0xC3, CHR 0xB1] @ ''a''), (''Espa'' @ [CHR 0xC3, CHR 0xB1] @ ''a''), ''Publica'', ''ES'', ''No'', '''', '''', ''''],
    [(''Biblioteca Nacional de M'' @ [CHR 0xC3, CHR 0xA9] @ ''xico''), ''contacto@bnm.unam.mx'', (''Ciudad de M'' @ [CHR 0xC3, CHR 0xA9] @ ''xico''), (''M'' @ [CHR 0xC3, CHR 0xA9] @ ''xico''), (''Latinoam'' @ [CHR 0xC3, CHR 0xA9] @ ''rica''), ''Nacional'', ''ES'', ''No'', '''', '''', ''''],
    [''Biblioteca Nacional de Argentina'', ''info@bn.gov.ar'', ''Buenos Aires'', ''Argentina'', (''Latinoam'' @ [CHR 0xC3, CHR 0xA9] @ ''rica''), ''Nacional'', ''ES'', ''No'', '''', '''', ''''],
    [''Biblioteca Nacional de Colombia'', ''contacto@bn.gov.co'', (''Bogot'' @ [CHR 0xC3, CHR 0xA1]), ''Colombia'', (''Latinoam'' @ [CHR 0xC3, CHR 0xA9] @ ''rica''), ''Nacional'', ''ES'', ''No'', '''', '''', ''''],
    [''Biblioteca de Santiago'', ''biblioteca@santiago.cl'', ''Santiago'', ''Chile'', (''Latinoam'' @ [CHR 0xC3, CHR 0xA9] @ ''rica''), ''Publica'', ''ES'', ''No'', '''', '''', ''''],
    [''New York Public Library'', ''acquisitions@nypl.org'', ''New York'', ''USA'', ''Norte America'', ''Publica'', ''EN'', ''No'', '''', '''', ''''],
    [''Los Angeles Public Library'', ''collections@lapl.org'', ''Los Angeles'', ''USA'', ''Norte America'', ''Publica'', ''EN'', ''No'', '''', '''', ''''],
    [''Miami-Dade Public Library'', ''acquisitions@mdpls.org'', ''Miami'', ''USA'', ''Norte America'', ''Publica'', ''ES'', ''No'', '''', '''', ''Hispanic community''],
    [''Houston Public Library'', ''collections@houstontx.gov'', ''Houston'', ''USA'', ''Norte America'', ''Publica'', ''EN'', ''No'', '''', '''', ''''],
    [''British Library'', ''acquisitions@bl.uk'', ''London'', ''UK'', ''Europa'', ''Nacional'', ''EN'', ''No'', '''', '''', ''''],
    [''London Public Library'', ''info@londonlibrary.co.uk'', ''London'', ''UK'', ''Europa'', ''Publica'', ''EN'', ''No'', '''', '''', ''''],
    [(''Biblioth'' @ [CHR 0xC3, CHR 0xA8] @ ''que Nationale de France''), ''contact@bnf.fr'', ''Paris'', ''Francia'', ''Europa'', ''Nacional'', ''FR'', ''No'', '''', '''', ''''],
    [(''Biblioth'' @ [CHR 0xC3, CHR 0xA8] @ ''que Publique de Paris''), ''bibliotheque@paris.fr'', ''Paris'', ''Francia'', ''Europa'', ''Publica'', ''FR'', ''No'', '''', '''', ''''],
    [''Biblioteca Nazionale Centrale di Roma'', ''bncrm@beniculturali.it'', ''Roma'', ''Italia'', ''Europa'', ''Nacional'', ''IT'', ''No'', '''', '''', ''''],
    [''Biblioteca Nazionale di Milano'', ''bnm@beniculturali.it'', (''Mil'' @ [CHR 0xC3, CHR 0xA1] @ ''n''), ''Italia'', ''Europa'', ''Nacional'', ''IT'', ''No'', '''', '''', ''''],
    [''Toronto Public Library'', ''collections@tpl.ca'', ''Toronto'', (''Canad'' @ [CHR 0xC3, CHR 0xA1]), ''Norte America'', ''Publica'', ''EN'', ''No'', '''', '''', ''''],
    [''Vancouver Public Library'', ''info@vpl.ca'', ''Vancouver'', (''Canad'' @ [CHR 0xC3, CHR 0xA1]), ''Norte America'', ''Publica'', ''EN'', ''No'', '''', '''', '''']
  ]"

text \<open>
  \<^verbatim>\<open>
  if os.path.exists(self.libraries_db): return
  ...
  writer.writerows(template)
  \<close>
\<close>

definition create_library_template :: "world \<Rightarrow> world" where
  "create_library_template w =
     (case libraries_db w of
        Some f \<Rightarrow> w
      | None \<Rightarrow> w\<lparr>libraries_db := Some template\<rparr>)"

subsection \<open>\<^verbatim>\<open>load_libraries\<close>\<close>

text \<open>Truth value of an argument that is a string or \<^verbatim>\<open>None\<close>: both \<^verbatim>\<open>None\<close> and \<^verbatim>\<open>""\<close> are false.\<close>

definition truthy :: "string option \<Rightarrow> bool" where
  "truthy s \<longleftrightarrow> s \<noteq> None \<and> s \<noteq> Some ''''"

text \<open>
  The body of the loop: a row is skipped (\<^verbatim>\<open>continue\<close>) by the first test that fires.
  \<^verbatim>\<open>
  if region and row.get('region') != region: continue
  if language and row.get('idioma_preferido') != language: continue
  if only_new and row.get('contactado') == 'Si': continue
  libraries.append(row)
  \<close>
\<close>

definition keeps :: "string option \<Rightarrow> string option \<Rightarrow> bool \<Rightarrow> row \<Rightarrow> bool" where
  "keeps region language only_new row =
     (if truthy region \<and> get row ''region'' \<noteq> region then False
      else if truthy language \<and> get row ''idioma_preferido'' \<noteq> language then False
      else if only_new \<and> get row ''contactado'' = Some ''Si'' then False
      else True)"

text \<open>
  \<^verbatim>\<open>load_libraries\<close> first calls \<^verbatim>\<open>create_library_template\<close>, then reads the file. A file
  that cannot be opened is caught by the \<^verbatim>\<open>except\<close> and gives the empty list (after
  \<^verbatim>\<open>create_library_template\<close> the file exists, so this branch is not reached). A file
  that exists and cannot be decoded or parsed is outside this model.
\<close>

definition load_libraries ::
  "string option \<Rightarrow> string option \<Rightarrow> bool \<Rightarrow> world \<Rightarrow> row list \<times> world" where
  "load_libraries region language only_new w =
     (let w' = create_library_template w in
      (case libraries_db w' of
         None \<Rightarrow> []
       | Some f \<Rightarrow> filter (keeps region language only_new) (DictReader f),
       w'))"

subsection \<open>The templates and \<^verbatim>\<open>generate_email\<close>\<close>

text \<open>
  One entry of \<^verbatim>\<open>self.templates\<close>. Each body has exactly one replacement field,
  \<^verbatim>\<open>{nombre}\<close>, and no other brace, so \<^verbatim>\<open>template['body'].format(nombre=x)\<close> is the body
  as a function of the text put in that field.
\<close>

record email_template =
  subject :: string
  body :: "string \<Rightarrow> string"

definition template_ES :: email_template where
  "template_ES = \<lparr>
     subject =
       ''Nuevo Cat'' @ [CHR 0xC3, CHR 0xA1] @ ''logo de Autor Espa'' @ [CHR 0xC3, CHR 0xB1] @
       ''ol - Francisco Angulo de Lafuente - Disponible para Bibliotecas'',
     body = (\<lambda>nombre.
       ''Estimado/a '' @ nombre @
       '','' @ [CHR 0x0A, CHR 0x0A] @
       ''Mi nombre es [Agent Name], representante literario de Francisco Angulo de Lafuente, auto'' @
       ''r espa'' @ [CHR 0xC3, CHR 0xB1] @ ''ol con m'' @ [CHR 0xC3, CHR 0xA1] @
       ''s de 55 obras publicadas en m'' @ [CHR 0xC3, CHR 0xBA] @ ''ltiples idiomas.'' @
       [CHR 0x0A, CHR 0x0A] @ ''Me pongo en contacto para informarle que el cat'' @
       [CHR 0xC3, CHR 0xA1] @ ''logo del autor est'' @ [CHR 0xC3, CHR 0xA1] @
       '' disponible para adquisici'' @ [CHR 0xC3, CHR 0xB3] @ ''n bibliotecaria a trav'' @
       [CHR 0xC3, CHR 0xA9] @ ''s de las principales plataformas de distribuci'' @
       [CHR 0xC3, CHR 0xB3] @ ''n.'' @ [CHR 0x0A, CHR 0x0A] @ ''**SOBRE EL AUTOR:**'' @ [CHR 0x0A] @
       ''Francisco Angulo de Lafuente (Madrid, 1976) es un autor vers'' @ [CHR 0xC3, CHR 0xA1] @
       ''til cuyas obras abarcan desde ciencia ficci'' @ [CHR 0xC3, CHR 0xB3] @
       ''n y thrillers de espionaje hasta literatura infantil ilustrada y gu'' @
       [CHR 0xC3, CHR 0xAD] @ ''as para escritores. Aficionado al cine de fantas'' @
       [CHR 0xC3, CHR 0xAD] @ ''a y la literatura, es seguidor de Isaac Asimov y Stephen King.'' @
       [CHR 0x0A, CHR 0x0A] @ ''**CAT'' @ [CHR 0xC3, CHR 0x81] @ ''LOGO DESTACADO:**'' @
       [CHR 0x0A, CHR 0x0A, CHR 0xF0, CHR 0x9F, CHR 0x93, CHR 0x9A] @ '' **Para Adultos:**'' @
       [CHR 0x0A, CHR 0xE2, CHR 0x80, CHR 0xA2] @ '' '' @ [CHR 0x22] @
       ''ApocalypsAI: The Day After AGI'' @ [CHR 0x22] @ '' - Ciencia ficci'' @
       [CHR 0xC3, CHR 0xB3] @ ''n sobre inteligencia artificial'' @
       [CHR 0x0A, CHR 0xE2, CHR 0x80, CHR 0xA2] @ '' '' @ [CHR 0x22] @
       ''Comandante Valentina Smirnova'' @ [CHR 0x22] @
       '' - Serie thriller de espionaje internacional'' @ [CHR 0x0A, CHR 0xE2, CHR 0x80, CHR 0xA2] @
       '' '' @ [CHR 0x22] @ ''Things you shouldn'' @ [CHR 0x27] @
       ''t do if you want to be a writer'' @ [CHR 0x22] @ '' - Gu'' @ [CHR 0xC3, CHR 0xAD] @
       ''a esencial para escritores'' @ [CHR 0x0A, CHR 0xE2, CHR 0x80, CHR 0xA2] @ '' '' @
       [CHR 0x22] @ ''Eco-fuel-FA (ECOFA)'' @ [CHR 0x22] @ '' - Sostenibilidad y soluciones energ'' @
       [CHR 0xC3, CHR 0xA9] @ ''ticas'' @
       [CHR 0x0A, CHR 0x0A, CHR 0xF0, CHR 0x9F, CHR 0x93, CHR 0x96] @ '' **Para J'' @
       [CHR 0xC3, CHR 0xB3] @ ''venes y Ni'' @ [CHR 0xC3, CHR 0xB1] @ ''os:**'' @
       [CHR 0x0A, CHR 0xE2, CHR 0x80, CHR 0xA2] @ '' '' @ [CHR 0x22] @ ''La Invasi'' @
       [CHR 0xC3, CHR 0xB3] @ ''n de las Medusas Mutantes'' @ [CHR 0x22] @
       '' - Novela ilustrada de aventuras'' @ [CHR 0x0A, CHR 0xE2, CHR 0x80, CHR 0xA2] @ '' '' @
       [CHR 0x22] @ ''Company N'' @ [CHR 0xC2, CHR 0xBA] @ ''12'' @ [CHR 0x22] @
       '' - Aventuras juveniles (disponible en franc'' @ [CHR 0xC3, CHR 0xA9] @ ''s)'' @
       [CHR 0x0A, CHR 0x0A, CHR 0xF0, CHR 0x9F, CHR 0x8C, CHR 0x8D] @ '' **IDIOMAS DISPONIBLES:**'' @
       [CHR 0x0A, CHR 0xE2, CHR 0x80, CHR 0xA2] @ '' Espa'' @ [CHR 0xC3, CHR 0xB1] @
       ''ol (principal)'' @ [CHR 0x0A, CHR 0xE2, CHR 0x80, CHR 0xA2] @ '' Ingl'' @
       [CHR 0xC3, CHR 0xA9] @ ''s'' @ [CHR 0x0A, CHR 0xE2, CHR 0x80, CHR 0xA2] @ '' Franc'' @
       [CHR 0xC3, CHR 0xA9] @ ''s'' @ [CHR 0x0A, CHR 0xE2, CHR 0x80, CHR 0xA2] @ '' Italiano'' @
       [CHR 0x0A, CHR 0xE2, CHR 0x80, CHR 0xA2] @ '' Portugu'' @ [CHR 0xC3, CHR 0xA9] @ ''s'' @
       [CHR 0x0A, CHR 0xE2, CHR 0x80, CHR 0xA2] @ '' Japon'' @ [CHR 0xC3, CHR 0xA9] @ ''s'' @
       [CHR 0x0A, CHR 0x0A] @ ''**PLATAFORMAS DE DISTRIBUCI'' @ [CHR 0xC3, CHR 0x93] @ ''N:**'' @
       [CHR 0x0A, CHR 0xE2, CHR 0x9C, CHR 0x93] @ '' OverDrive / Libby'' @
       [CHR 0x0A, CHR 0xE2, CHR 0x9C, CHR 0x93] @ '' hoopla Digital'' @
       [CHR 0x0A, CHR 0xE2, CHR 0x9C, CHR 0x93] @ '' cloudLibrary (Bibliotheca)'' @
       [CHR 0x0A, CHR 0xE2, CHR 0x9C, CHR 0x93] @ '' Odilo'' @
       [CHR 0x0A, CHR 0xE2, CHR 0x9C, CHR 0x93] @ '' EBSCOhost'' @
       [CHR 0x0A, CHR 0xE2, CHR 0x9C, CHR 0x93] @ '' Mackin (para escuelas)'' @
       [CHR 0x0A, CHR 0x0A] @ ''Todos los t'' @ [CHR 0xC3, CHR 0xAD] @ ''tulos est'' @
       [CHR 0xC3, CHR 0xA1] @ ''n disponibles en formato ebook y muchos tambi'' @
       [CHR 0xC3, CHR 0xA9] @ ''n en audiolibro y edici'' @ [CHR 0xC3, CHR 0xB3] @ ''n impresa.'' @
       [CHR 0x0A, CHR 0x0A] @ ''**PARA ADQUIRIR:**'' @ [CHR 0x0A] @ ''Puede adquirir los t'' @
       [CHR 0xC3, CHR 0xAD] @ ''tulos a trav'' @ [CHR 0xC3, CHR 0xA9] @
       ''s de su distribuidor habitual o contactarme directamente para obtener informaci'' @
       [CHR 0xC3, CHR 0xB3] @ ''n adicional sobre precios institucionales y licencias.'' @
       [CHR 0x0A, CHR 0x0A] @ ''Adjunto encontrar'' @ [CHR 0xC3, CHR 0xA1] @ '' el cat'' @
       [CHR 0xC3, CHR 0xA1] @ ''logo completo con ISBNs, descripciones y metadatos BISAC.'' @
       [CHR 0x0A, CHR 0x0A] @ ''Quedo a su disposici'' @ [CHR 0xC3, CHR 0xB3] @
       ''n para cualquier consulta o para programar una presentaci'' @ [CHR 0xC3, CHR 0xB3] @
       ''n virtual del autor para sus usuarios.'' @ [CHR 0x0A, CHR 0x0A] @ ''Un saludo cordial,'' @
       [CHR 0x0A, CHR 0x0A] @ ''[Nombre del Agente]'' @ [CHR 0x0A] @
       ''Literary Agent - Francisco Angulo de Lafuente'' @ [CHR 0x0A] @
       ''Email: agent@franciscoangulo.com'' @ [CHR 0x0A] @ ''Web: www.franciscoangulo.com'' @
       [CHR 0x0A, CHR 0x0A] @ ''---'' @ [CHR 0x0A, CHR 0x0A] @
       ''P.D.: Ofrecemos descuentos especiales para compras de colecciones completas y estamos ab'' @
       ''iertos a participar en programas de lectura de su biblioteca.'')\<rparr>"

definition template_EN :: email_template where
  "template_EN = \<lparr>
     subject =
       ''New Spanish Author Catalog - Francisco Angulo de Lafuente - Available for Library Acquis'' @
       ''ition'',
     body = (\<lambda>nombre.
       ''Dear '' @ nombre @
       '','' @ [CHR 0x0A, CHR 0x0A] @
       ''My name is [Agent Name], literary agent for Francisco Angulo de Lafuente, a Spanish auth'' @
       ''or with over 55 published works in multiple languages.'' @ [CHR 0x0A, CHR 0x0A] @
       ''I am writing to inform you that the author'' @ [CHR 0x27] @
       ''s catalog is available for library acquisition through major distribution platforms.'' @
       [CHR 0x0A, CHR 0x0A] @ ''**ABOUT THE AUTHOR:**'' @ [CHR 0x0A] @
       ''Francisco Angulo de Lafuente (Madrid, 1976) is a versatile author whose works span from '' @
       ''science fiction and spy thrillers to illustrated children'' @ [CHR 0x27] @
       ''s literature and writing guides. A fan of fantasy cinema and literature, he follows Isaa'' @
       ''c Asimov and Stephen King.'' @ [CHR 0x0A, CHR 0x0A] @ ''**FEATURED TITLES:**'' @
       [CHR 0x0A, CHR 0x0A, CHR 0xF0, CHR 0x9F, CHR 0x93, CHR 0x9A] @ '' **For Adults:**'' @
       [CHR 0x0A, CHR 0xE2, CHR 0x80, CHR 0xA2] @ '' '' @ [CHR 0x22] @
       ''ApocalypsAI: The Day After AGI'' @ [CHR 0x22] @
       '' - Science fiction about artificial intelligence'' @
       [CHR 0x0A, CHR 0xE2, CHR 0x80, CHR 0xA2] @ '' '' @ [CHR 0x22] @
       ''Commander Valentina Smirnova'' @ [CHR 0x22] @ '' - International spy thriller series'' @
       [CHR 0x0A, CHR 0xE2, CHR 0x80, CHR 0xA2] @ '' '' @ [CHR 0x22] @ ''Things you shouldn'' @
       [CHR 0x27] @ ''t do if you want to be a writer'' @ [CHR 0x22] @
       '' - Essential guide for writers'' @ [CHR 0x0A, CHR 0xE2, CHR 0x80, CHR 0xA2] @ '' '' @
       [CHR 0x22] @ ''Eco-fuel-FA (ECOFA)'' @ [CHR 0x22] @
       '' - Sustainability and energy solutions'' @
       [CHR 0x0A, CHR 0x0A, CHR 0xF0, CHR 0x9F, CHR 0x93, CHR 0x96] @ '' **For Young Readers:**'' @
       [CHR 0x0A, CHR 0xE2, CHR 0x80, CHR 0xA2] @ '' '' @ [CHR 0x22] @
       ''The Mutant Jellyfish Invasion'' @ [CHR 0x22] @ '' - Illustrated adventure novel'' @
       [CHR 0x0A, CHR 0xE2, CHR 0x80, CHR 0xA2] @ '' '' @ [CHR 0x22] @ ''Company N'' @
       [CHR 0xC2, CHR 0xBA] @ ''12'' @ [CHR 0x22] @ '' - Youth adventures (available in French)'' @
       [CHR 0x0A, CHR 0x0A, CHR 0xF0, CHR 0x9F, CHR 0x8C, CHR 0x8D] @ '' **LANGUAGES AVAILABLE:**'' @
       [CHR 0x0A, CHR 0xE2, CHR 0x80, CHR 0xA2] @ '' Spanish (primary)'' @
       [CHR 0x0A, CHR 0xE2, CHR 0x80, CHR 0xA2] @ '' English'' @
       [CHR 0x0A, CHR 0xE2, CHR 0x80, CHR 0xA2] @ '' French'' @
       [CHR 0x0A, CHR 0xE2, CHR 0x80, CHR 0xA2] @ '' Italian'' @
       [CHR 0x0A, CHR 0xE2, CHR 0x80, CHR 0xA2] @ '' Portuguese'' @
       [CHR 0x0A, CHR 0xE2, CHR 0x80, CHR 0xA2] @ '' Japanese'' @ [CHR 0x0A, CHR 0x0A] @
       ''**DISTRIBUTION PLATFORMS:**'' @ [CHR 0x0A, CHR 0xE2, CHR 0x9C, CHR 0x93] @
       '' OverDrive / Libby'' @ [CHR 0x0A, CHR 0xE2, CHR 0x9C, CHR 0x93] @ '' hoopla Digital'' @
       [CHR 0x0A, CHR 0xE2, CHR 0x9C, CHR 0x93] @ '' cloudLibrary (Bibliotheca)'' @
       [CHR 0x0A, CHR 0xE2, CHR 0x9C, CHR 0x93] @ '' Odilo'' @
       [CHR 0x0A, CHR 0xE2, CHR 0x9C, CHR 0x93] @ '' EBSCOhost'' @
       [CHR 0x0A, CHR 0xE2, CHR 0x9C, CHR 0x93] @ '' Mackin (for schools)'' @ [CHR 0x0A, CHR 0x0A] @
       ''All titles are available in ebook format, with many also in audiobook and print editions'' @
       ''.'' @ [CHR 0x0A, CHR 0x0A] @ ''**TO ACQUIRE:**'' @ [CHR 0x0A] @
       ''You can purchase titles through your regular distributor or contact me directly for inst'' @
       ''itutional pricing and licensing information.'' @ [CHR 0x0A, CHR 0x0A] @
       ''Attached you will find the complete catalog with ISBNs, descriptions, and BISAC metadata'' @
       ''.'' @ [CHR 0x0A, CHR 0x0A] @
       ''I remain at your disposal for any questions or to schedule a virtual author presentation'' @
       '' for your patrons.'' @ [CHR 0x0A, CHR 0x0A] @ ''Best regards,'' @ [CHR 0x0A, CHR 0x0A] @
       ''[Agent Name]'' @ [CHR 0x0A] @ ''Literary Agent - Francisco Angulo de Lafuente'' @
       [CHR 0x0A] @ ''Email: agent@franciscoangulo.com'' @ [CHR 0x0A] @
       ''Web: www.franciscoangulo.com'' @ [CHR 0x0A, CHR 0x0A] @ ''---'' @ [CHR 0x0A, CHR 0x0A] @
       ''P.S.: We offer special discounts for complete collection purchases and are open to parti'' @
       ''cipating in your library'' @ [CHR 0x27] @ ''s reading programs.'')\<rparr>"

definition template_FR :: email_template where
  "template_FR = \<lparr>
     subject =
       ''Nouveau Catalogue d'' @ [CHR 0x27] @
       ''Auteur Espagnol - Francisco Angulo de Lafuente - Disponible pour les Biblioth'' @
       [CHR 0xC3, CHR 0xA8] @ ''ques'',
     body = (\<lambda>nombre.
       ''Cher/Ch'' @ [CHR 0xC3, CHR 0xA8] @ ''re '' @ nombre @
       '','' @ [CHR 0x0A, CHR 0x0A] @ ''Je m'' @ [CHR 0x27] @ ''appelle [Agent Name], agent litt'' @
       [CHR 0xC3, CHR 0xA9] @
       ''raire de Francisco Angulo de Lafuente, auteur espagnol avec plus de 55 '' @
       [CHR 0xC5, CHR 0x93] @ ''uvres publi'' @ [CHR 0xC3, CHR 0xA9] @ ''es en plusieurs langues.'' @
       [CHR 0x0A, CHR 0x0A] @ ''Je vous contacte pour vous informer que le catalogue de l'' @
       [CHR 0x27] @ ''auteur est disponible pour l'' @ [CHR 0x27] @ ''acquisition biblioth'' @
       [CHR 0xC3, CHR 0xA9] @ ''caire via les principales plateformes de distribution.'' @
       [CHR 0x0A, CHR 0x0A] @ ''**CAT'' @ [CHR 0xC3, CHR 0x89] @ ''GORIES PRINCIPALES:**'' @
       [CHR 0x0A, CHR 0xE2, CHR 0x80, CHR 0xA2] @ '' Science-fiction sur l'' @ [CHR 0x27] @
       ''intelligence artificielle'' @ [CHR 0x0A, CHR 0xE2, CHR 0x80, CHR 0xA2] @ '' Thriller d'' @
       [CHR 0x27] @ ''espionnage international'' @ [CHR 0x0A, CHR 0xE2, CHR 0x80, CHR 0xA2] @
       '' Litt'' @ [CHR 0xC3, CHR 0xA9] @ ''rature jeunesse illustr'' @ [CHR 0xC3, CHR 0xA9] @
       ''e'' @ [CHR 0x0A, CHR 0xE2, CHR 0x80, CHR 0xA2] @ '' Guides d'' @
       [CHR 0x27, CHR 0xC3, CHR 0xA9] @ ''criture'' @ [CHR 0x0A, CHR 0x0A] @
       ''**LANGUES DISPONIBLES:**'' @ [CHR 0x0A] @ ''Espagnol, Anglais, Fran'' @
       [CHR 0xC3, CHR 0xA7] @ ''ais, Italien, Portugais, Japonais'' @ [CHR 0x0A, CHR 0x0A] @
       ''**PLATEFORMES:**'' @ [CHR 0x0A] @
       ''OverDrive/Libby, hoopla, cloudLibrary, Odilo, EBSCOhost'' @ [CHR 0x0A, CHR 0x0A] @
       ''Cordialement,'' @ [CHR 0x0A] @ ''[Agent Name]'' @ [CHR 0x0A] @ ''Agent Litt'' @
       [CHR 0xC3, CHR 0xA9] @ ''raire - Francisco Angulo de Lafuente'')\<rparr>"

definition templates :: "string \<rightharpoonup> email_template" where
  "templates = [''ES'' \<mapsto> template_ES, ''EN'' \<mapsto> template_EN, ''FR'' \<mapsto> template_FR]"

text \<open>\<^verbatim>\<open>self.templates.get(language, self.templates['ES'])\<close>, for a language that is a string or \<^verbatim>\<open>None\<close>.\<close>

definition templates_get :: "string option \<Rightarrow> email_template" where
  "templates_get language =
     (case language of
        None \<Rightarrow> template_ES
      | Some l \<Rightarrow> (case templates l of None \<Rightarrow> template_ES | Some t \<Rightarrow> t))"

text \<open>\<^verbatim>\<open>str(x)\<close> of a string or \<^verbatim>\<open>None\<close>, as \<^verbatim>\<open>format\<close> renders the field.\<close>

definition py_str :: "string option \<Rightarrow> string" where
  "py_str v = (case v of None \<Rightarrow> ''None'' | Some s \<Rightarrow> s)"

text \<open>The dictionary \<^verbatim>\<open>generate_email\<close> returns.\<close>

record email_data =
  email_subject :: string
  email_body :: string
  email_language :: "string option"

text \<open>
  \<^verbatim>\<open>
  if not language: language = library.get('idioma_preferido', 'ES')
  template = self.templates.get(language, self.templates['ES'])
  nombre = library.get('nombre', 'Bibliotecario/a')
  email_body = template['body'].format(nombre=nombre)
  \<close>
\<close>

definition generate_email :: "row \<Rightarrow> string option \<Rightarrow> email_data" where
  "generate_email library language =
     (let language' = (if \<not> truthy language then get_default library ''idioma_preferido'' ''ES''
                       else language);
          t = templates_get language';
          nombre = get_default library ''nombre'' ''Bibliotecario/a'';
          email_body = body t (py_str nombre)
      in \<lparr>email_subject = subject t, email_body = email_body, email_language = language'\<rparr>)"

subsection \<open>\<^verbatim>\<open>csv.DictWriter\<close>\<close>

text \<open>What \<^verbatim>\<open>csv.writer\<close> writes for a cell: \<^verbatim>\<open>None\<close> becomes the empty string, a list its \<^verbatim>\<open>str\<close>.\<close>

definition key_text :: "string option \<Rightarrow> string" where
  "key_text k = (case k of None \<Rightarrow> '''' | Some s \<Rightarrow> s)"

fun entry_text :: "runtime \<Rightarrow> entry \<Rightarrow> string" where
  "entry_text rt (Field k v) = (case v of None \<Rightarrow> '''' | Some s \<Rightarrow> s)"
| "entry_text rt (Extra xs) = str_list rt xs"

text \<open>The entry of a dictionary under a key of either kind.\<close>

fun find_entry :: "row \<Rightarrow> string option \<Rightarrow> entry option" where
  "find_entry [] k = None"
| "find_entry (e # d) k = (if entry_key e = k then Some e else find_entry d k)"

text \<open>
  \<^verbatim>\<open>DictWriter._dict_to_list\<close> with \<^verbatim>\<open>extrasaction="raise"\<close> and \<^verbatim>\<open>restval=""\<close>:
  \<^verbatim>\<open>
  wrong_fields = rowdict.keys() - self.fieldnames
  if wrong_fields: raise ValueError(...)
  return (rowdict.get(key, self.restval) for key in self.fieldnames)
  \<close>
\<close>

definition dict_to_list :: "runtime \<Rightarrow> string option list \<Rightarrow> row \<Rightarrow> error + string list" where
  "dict_to_list rt fieldnames rowdict =
     (if \<exists>k \<in> set (keys rowdict). k \<notin> set fieldnames then Inl ValueError
      else Inr (map (\<lambda>k. case find_entry rowdict k of
                            None \<Rightarrow> ''''
                          | Some e \<Rightarrow> entry_text rt e) fieldnames))"

text \<open>
  \<^verbatim>\<open>writer.writerows(rows)\<close> after the records \<open>f\<close> already written: a row with a wrong
  field raises, and the records written before it stay in the file.
\<close>

fun writerows :: "runtime \<Rightarrow> string option list \<Rightarrow> csv_file \<Rightarrow> row list \<Rightarrow> csv_file \<times> error option" where
  "writerows rt fieldnames f [] = (f, None)"
| "writerows rt fieldnames f (d # ds) =
     (case dict_to_list rt fieldnames d of
        Inl e \<Rightarrow> (f, Some e)
      | Inr r \<Rightarrow> writerows rt fieldnames (f @ [r]) ds)"

text \<open>
  What both writing blocks of the class leave in a file opened with mode \<^verbatim>\<open>'w'\<close>:
  \<^verbatim>\<open>
  if rows:
      writer = csv.DictWriter(f, fieldnames=rows[0].keys())
      writer.writeheader()
      writer.writerows(rows)
  \<close>
  With no row nothing is written and the file is left empty.
\<close>

definition write_dicts :: "runtime \<Rightarrow> row list \<Rightarrow> csv_file \<times> error option" where
  "write_dicts rt rows =
     (case rows of
        [] \<Rightarrow> ([], None)
      | d # ds \<Rightarrow> writerows rt (keys d) [map key_text (keys d)] rows)"

subsection \<open>\<^verbatim>\<open>track_contact\<close>\<close>

text \<open>
  The update loop, over the rows not yet visited, with the number of clock readings:
  \<^verbatim>\<open>
  for lib in libraries:
      if lib['email'] == library_email:
          lib['contactado'] = 'Si'
          lib['fecha_contacto'] = datetime.now().strftime('%Y-%m-%d')
          lib['respuesta'] = status
          lib['notas'] = notes
          break
  \<close>
\<close>

fun update_first ::
  "runtime \<Rightarrow> string option \<Rightarrow> string \<Rightarrow> string \<Rightarrow> row list \<Rightarrow> nat \<Rightarrow> error + row list \<times> nat" where
  "update_first rt library_email status notes [] n = Inr ([], n)"
| "update_first rt library_email status notes (lib # libs) n =
     (case lookup lib ''email'' of
        None \<Rightarrow> Inl (KeyError ''email'')
      | Some v \<Rightarrow>
          if v = library_email then
            Inr (setitem (setitem (setitem (setitem lib
                   ''contactado'' (Some ''Si''))
                   ''fecha_contacto'' (Some (ymd (clock rt n))))
                   ''respuesta'' (Some status))
                   ''notas'' (Some notes) # libs, Suc n)
          else
            (case update_first rt library_email status notes libs n of
               Inl e \<Rightarrow> Inl e
             | Inr (libs', n') \<Rightarrow> Inr (lib # libs', n')))"

text \<open>
  \<^verbatim>\<open>track_contact(library_email, status, notes)\<close>: the error raised, if any, and the state
  left behind. Opening a missing file for reading raises; an error in the loop leaves the
  file as it was; the file is truncated when it is opened for writing. The address is a
  string or \<^verbatim>\<open>None\<close>: \<^verbatim>\<open>batch_outreach\<close> passes \<^verbatim>\<open>library['email']\<close>, which is \<^verbatim>\<open>None\<close> for a
  record that ends before that column.
\<close>

definition track_contact ::
  "runtime \<Rightarrow> string option \<Rightarrow> string \<Rightarrow> string \<Rightarrow> world \<Rightarrow> error option \<times> world" where
  "track_contact rt library_email status notes w =
     (case libraries_db w of
        None \<Rightarrow> (Some FileNotFoundError, w)
      | Some f \<Rightarrow>
          (case update_first rt library_email status notes (DictReader f) (ticks w) of
             Inl e \<Rightarrow> (Some e, w)
           | Inr (libraries, n) \<Rightarrow>
               (let (f', e) = write_dicts rt libraries
                in (e, w\<lparr>libraries_db := Some f', ticks := n\<rparr>))))"

subsection \<open>\<^verbatim>\<open>save_campaign\<close>\<close>

text \<open>
  \<^verbatim>\<open>
  campaigns = []
  if os.path.exists(self.campaigns_db): campaigns = json.load(f)
  campaigns.append(campaign_data)
  json.dump(campaigns, f, ...)
  \<close>
\<close>

definition save_campaign :: "campaign_data \<Rightarrow> world \<Rightarrow> world" where
  "save_campaign c w =
     (let campaigns = (case campaigns_db w of None \<Rightarrow> [] | Some cs \<Rightarrow> cs)
      in w\<lparr>campaigns_db := Some (campaigns @ [c])\<rparr>)"

subsection \<open>\<^verbatim>\<open>batch_outreach\<close>\<close>

text \<open>The slice \<^verbatim>\<open>xs[:n]\<close>: a negative \<open>n\<close> counts from the end.\<close>

definition slice_to :: "int \<Rightarrow> 'a list \<Rightarrow> 'a list" where
  "slice_to n xs = (if 0 \<le> n then take (nat n) xs else take (length xs - nat (- n)) xs)"

text \<open>
  The loop over \<^verbatim>\<open>libraries[:max_emails]\<close>, with the results appended so far. A missing
  key raises before the result is appended, and an error of \<^verbatim>\<open>track_contact\<close> ends the
  run; either way the state reached is kept.
  \<^verbatim>\<open>
  email_data = self.generate_email(library, language)
  result = {'biblioteca': library['nombre'], 'email': library['email'],
            'ciudad': library['ciudad'], 'pais': library['pais'],
            'idioma': email_data['language'], 'asunto': email_data['subject'],
            'estado': 'simulado' if dry_run else 'enviado',
            'fecha': datetime.now().isoformat()}
  campaign_results.append(result)
  if not dry_run:
      self.track_contact(library['email'], 'enviado')
  \<close>
\<close>

fun outreach_loop ::
  "runtime \<Rightarrow> string option \<Rightarrow> bool \<Rightarrow> row list \<Rightarrow> row list \<Rightarrow> world \<Rightarrow> (error + row list) \<times> world" where
  "outreach_loop rt language dry_run [] campaign_results w = (Inr campaign_results, w)"
| "outreach_loop rt language dry_run (library # rest) campaign_results w =
     (let email_data = generate_email library language in
      case lookup library ''nombre'' of
        None \<Rightarrow> (Inl (KeyError ''nombre''), w)
      | Some nombre \<Rightarrow>
      (case lookup library ''email'' of
        None \<Rightarrow> (Inl (KeyError ''email''), w)
      | Some email \<Rightarrow>
      (case lookup library ''ciudad'' of
        None \<Rightarrow> (Inl (KeyError ''ciudad''), w)
      | Some ciudad \<Rightarrow>
      (case lookup library ''pais'' of
        None \<Rightarrow> (Inl (KeyError ''pais''), w)
      | Some pais \<Rightarrow>
          (let (t, w1) = now rt w;
               result = [Field ''biblioteca'' nombre,
                         Field ''email'' email,
                         Field ''ciudad'' ciudad,
                         Field ''pais'' pais,
                         Field ''idioma'' (email_language email_data),
                         Field ''asunto'' (Some (email_subject email_data)),
                         Field ''estado'' (Some (if dry_run then ''simulado'' else ''enviado'')),
                         Field ''fecha'' (Some (isoformat t))];
               campaign_results' = campaign_results @ [result]
           in if \<not> dry_run then
                (case track_contact rt email ''enviado'' '''' w1 of
                   (Some e, w2) \<Rightarrow> (Inl e, w2)
                 | (None, w2) \<Rightarrow> outreach_loop rt language dry_run rest campaign_results' w2)
              else outreach_loop rt language dry_run rest campaign_results' w1)))))"

text \<open>The two dictionaries \<^verbatim>\<open>batch_outreach\<close> can return, told apart by \<^verbatim>\<open>'status'\<close>.\<close>

datatype batch_result =
  No_libraries string
| Success nat string campaign_data

fun result_status :: "batch_result \<Rightarrow> string" where
  "result_status (No_libraries message) = ''no_libraries''"
| "result_status (Success n report_file c) = ''success''"

text \<open>
  \<^verbatim>\<open>batch_outreach(region, language, max_emails, dry_run)\<close>: the value returned or the
  error raised, and the state left behind. The early \<^verbatim>\<open>return\<close> comes before anything is
  saved; otherwise the campaign is saved first, then the report is written under a name
  made from the clock.
\<close>

definition batch_outreach ::
  "runtime \<Rightarrow> string option \<Rightarrow> string option \<Rightarrow> int \<Rightarrow> bool \<Rightarrow> world \<Rightarrow> (error + batch_result) \<times> world" where
  "batch_outreach rt region language max_emails dry_run w =
     (let (libraries, w0) = load_libraries region language True w in
      if length libraries = 0 then
        (Inr (No_libraries ''No hay bibliotecas disponibles con los filtros seleccionados''), w0)
      else
        (case outreach_loop rt language dry_run (slice_to max_emails libraries) [] w0 of
           (Inl e, w1) \<Rightarrow> (Inl e, w1)
         | (Inr campaign_results, w1) \<Rightarrow>
             (let (t1, w2) = now rt w1;
                  (t2, w3) = now rt w2;
                  c = \<lparr>campaign_id = stamp t1,
                       campaign_fecha = isoformat t2,
                       campaign_region = region,
                       campaign_idioma = language,
                       total_enviados = length campaign_results,
                       modo = (if dry_run then ''simulacion'' else ''real''),
                       resultados = campaign_results\<rparr>;
                  w4 = save_campaign c w3;
                  (t3, w5) = now rt w4;
                  report_file = ''library_campaign_'' @ stamp t3 @ ''.csv'';
                  (f, e) = write_dicts rt campaign_results;
                  w6 = w5\<lparr>reports := (reports w5)(report_file \<mapsto> f)\<rparr>
              in (case e of
                    Some err \<Rightarrow> (Inl err, w6)
                  | None \<Rightarrow> (Inr (Success (length campaign_results) report_file c), w6)))))"

subsection \<open>The filter in the specification's words\<close>

text \<open>
  The specification's \<^verbatim>\<open>load\<close>: every supplied filter is an exact comparison, an absent
  one matches everything, and \<^verbatim>\<open>excludeContacted\<close> removes the contacts marked as
  contacted (the mark being \<^verbatim>\<open>'Si'\<close>, as \<^verbatim>\<open>load_libraries\<close> tests it).
\<close>

definition matches_spec :: "string option \<Rightarrow> string option \<Rightarrow> bool \<Rightarrow> row \<Rightarrow> bool" where
  "matches_spec region language excludeContacted c \<longleftrightarrow>
     (case region of None \<Rightarrow> True | Some r \<Rightarrow> get c ''region'' = Some r)
     \<and> (case language of None \<Rightarrow> True | Some l \<Rightarrow> get c ''idioma_preferido'' = Some l)
     \<and> (excludeContacted \<longrightarrow> get c ''contactado'' \<noteq> Some ''Si'')"

subsection \<open>Store tables\<close>

text \<open>
  A store table is a file as the class itself writes it: a header of pairwise different
  names, among them the five columns \<^verbatim>\<open>track_contact\<close> reads or writes, followed by
  records that each have as many fields as the header. It may have no record at all.
\<close>

definition store_table :: "csv_file \<Rightarrow> bool" where
  "store_table f \<longleftrightarrow>
     (case f of
        [] \<Rightarrow> False
      | h # recs \<Rightarrow>
          distinct h
          \<and> set [''email'', ''contactado'', ''fecha_contacto'', ''respuesta'', ''notas''] \<subseteq> set h
          \<and> (\<forall>r \<in> set recs. length r = length h))"

text \<open>The dictionary \<^verbatim>\<open>DictReader\<close> makes of a record that fits a header of different names.\<close>

definition row_of :: "string list \<Rightarrow> string list \<Rightarrow> row" where
  "row_of h r = map (\<lambda>(k, v). Field k (Some v)) (zip h r)"

text \<open>A record with the field under the column \<open>k\<close> replaced.\<close>

definition set_column :: "string list \<Rightarrow> string \<Rightarrow> string \<Rightarrow> string list \<Rightarrow> string list" where
  "set_column h k v r = map (\<lambda>(k', x). if k' = k then v else x) (zip h r)"


definition mark_record ::
  "string list \<Rightarrow> string \<Rightarrow> string \<Rightarrow> string \<Rightarrow> string list \<Rightarrow> string list" where
  "mark_record h date status notes r =
     set_column h ''notas'' notes
       (set_column h ''respuesta'' status
         (set_column h ''fecha_contacto'' date
           (set_column h ''contactado'' ''Si'' r)))"

subsection \<open>States and a runtime used as examples\<close>

text \<open>
  Before the first run no file exists; \<open>seeded\<close> is the state after the store was
  created; \<open>header_only\<close> is a store whose records were all removed.
\<close>

definition first_run :: world where
  "first_run = \<lparr>libraries_db = None, campaigns_db = None, reports = Map.empty, ticks = 0\<rparr>"

definition seeded :: world where
  "seeded = \<lparr>libraries_db = Some template, campaigns_db = None, reports = Map.empty, ticks = 0\<rparr>"


text \<open>
  A clock that reads 1 March 2024, 9 o'clock, the first time and one day later from
  then on, and \<^verbatim>\<open>str\<close> of a list as Python prints it for strings of printable ASCII
  without quotes or backslashes.
\<close>

fun join :: "string list \<Rightarrow> string" where
  "join [] = ''''"
| "join [x] = x"
| "join (x # y # ys) = x @ '', '' @ join (y # ys)"

definition example_runtime :: runtime where
  "example_runtime =
     \<lparr>clock = (\<lambda>n. if n = 0
                    then \<lparr>ymd = ''2024-03-01'', isoformat = ''2024-03-01T09:00:00'',
                          stamp = ''20240301_090000''\<rparr>
                    else \<lparr>ymd = ''2024-03-02'', isoformat = ''2024-03-02T09:00:00'',
                          stamp = ''20240302_090000''\<rparr>),
      str_list = (\<lambda>xs. ''['' @ join (map (\<lambda>x. [CHR 0x27] @ x @ [CHR 0x27]) xs) @ '']'')\<rparr>"

text \<open>
  The campaign record of a simulated run for the region \<^verbatim>\<open>Europa\<close> with one e-mail, on
  the seed store and with the example runtime.
\<close>

definition example_campaign :: campaign_data where
  "example_campaign =
     \<lparr>campaign_id = ''20240302_090000'',
      campaign_fecha = ''2024-03-02T09:00:00'',
      campaign_region = Some ''Europa'',
      campaign_idioma = None,
      total_enviados = 1,
      modo = ''simulacion'',
      resultados =
        [[Field ''biblioteca'' (Some (''Biblioteca Nacional de Espa'' @ [CHR 0xC3, CHR 0xB1] @ ''a'')),
          Field ''email'' (Some ''contacto@bne.es''),
          Field ''ciudad'' (Some ''Madrid''),
          Field ''pais'' (Some (''Espa'' @ [CHR 0xC3, CHR 0xB1] @ ''a'')),
          Field ''idioma'' (Some ''ES''),
          Field ''asunto'' (Some (subject template_ES)),
          Field ''estado'' (Some ''simulado''),
          Field ''fecha'' (Some ''2024-03-01T09:00:00'')]]\<rparr>"

section \<open>Properties\<close>

subsection \<open>The seed list\<close>

lemma template_emails:
  "distinct (map (\<lambda>d. get d ''email'') (DictReader template))"
  by code_simp

lemma template_contactado:
  "map (\<lambda>d. get d ''contactado'') (DictReader template) = replicate 20 (Some ''No'')"
  by code_simp

subsection \<open>Creating the store\<close>

text \<open>
  Claim C4. \<^verbatim>\<open>create_library_template\<close> writes the seed list when the store file is
  absent and changes nothing when the file exists, whatever it holds; so a second call
  never changes what the first one left. The twenty seed rows have pairwise different
  e-mail addresses and all carry \<^verbatim>\<open>'No'\<close> in the column \<^verbatim>\<open>contactado\<close>.
\<close>

theorem create_library_template_idempotent:
  "(libraries_db w = None \<longrightarrow> create_library_template w = w\<lparr>libraries_db := Some template\<rparr>)
   \<and> (libraries_db w \<noteq> None \<longrightarrow> create_library_template w = w)
   \<and> create_library_template (create_library_template w) = create_library_template w
   \<and> distinct (map (\<lambda>d. get d ''email'') (DictReader template))
   \<and> map (\<lambda>d. get d ''contactado'') (DictReader template) = replicate 20 (Some ''No'')"
  using template_emails template_contactado
  by (auto simp add: create_library_template_def split: option.splits)

theorem create_library_template_idempotent_witness:
  "libraries_db first_run = None
   \<and> create_library_template first_run = seeded
   \<and> libraries_db seeded \<noteq> None
   \<and> create_library_template seeded = seeded"
  using create_library_template_idempotent [of first_run]
    create_library_template_idempotent [of seeded]
  by (simp add: first_run_def seeded_def)

subsection \<open>Loading with filters\<close>

lemma keeps_matches_spec:
  "region \<noteq> Some '''' \<Longrightarrow> language \<noteq> Some '''' \<Longrightarrow>
   keeps region language only_new = matches_spec region language only_new"
  by (rule ext) (auto simp add: keeps_def matches_spec_def truthy_def split: option.splits)

text \<open>
  Claim C1, as amended. For every content of the store file and every filter whose
  region and language are each absent or a non-empty string, \<^verbatim>\<open>load_libraries\<close> returns
  exactly the rows that satisfy all supplied filters, in the order of the file, and
  leaves the state as it is.
\<close>

theorem load_libraries_filters:
  "libraries_db w = Some f \<Longrightarrow> region \<noteq> Some '''' \<Longrightarrow> language \<noteq> Some '''' \<Longrightarrow>
   load_libraries region language only_new w =
     (filter (matches_spec region language only_new) (DictReader f), w)"
  by (simp add: load_libraries_def create_library_template_def keeps_matches_spec)

theorem load_libraries_filters_witness:
  "libraries_db seeded = Some template \<and> Some ''Europa'' \<noteq> Some '''' \<and> Some ''FR'' \<noteq> Some ''''
   \<and> map (\<lambda>d. get d ''email'') (fst (load_libraries (Some ''Europa'') (Some ''FR'') True seeded))
       = [Some ''contact@bnf.fr'', Some ''bibliotheque@paris.fr'']"
proof -
  have s: "libraries_db seeded = Some template"
    by (simp add: seeded_def)
  have "map (\<lambda>d. get d ''email'')
          (filter (matches_spec (Some ''Europa'') (Some ''FR'') True) (DictReader template))
        = [Some ''contact@bnf.fr'', Some ''bibliotheque@paris.fr'']"
    by code_simp
  then show ?thesis
    using load_libraries_filters [OF s, of "Some ''Europa''" "Some ''FR''" True] s by simp
qed

text \<open>
  Claim C1 as stated fails for a supplied filter that is the empty string: on the seed
  store, the region \<^verbatim>\<open>""\<close> loads all twenty rows, while no row has the region \<^verbatim>\<open>""\<close>.
\<close>

theorem load_libraries_empty_region_counterexample:
  "fst (load_libraries (Some '''') None True seeded)
     \<noteq> filter (matches_spec (Some '''') None True) (DictReader template)
   \<and> length (fst (load_libraries (Some '''') None True seeded)) = 20
   \<and> filter (matches_spec (Some '''') None True) (DictReader template) = []"
proof -
  have "length (filter (keeps (Some '''') None True) (DictReader template)) = 20"
    by code_simp
  then have a: "length (fst (load_libraries (Some '''') None True seeded)) = 20"
    by (simp add: load_libraries_def create_library_template_def seeded_def)
  have b: "filter (matches_spec (Some '''') None True) (DictReader template) = []"
    by code_simp
  from a b show ?thesis
    by auto
qed

text \<open>
  Claim C9. A region or a language that is the empty string filters nothing: the call
  returns what it returns with that filter absent, for every state. So on the seed store
  the region \<^verbatim>\<open>""\<close> does not load the empty list.
\<close>

theorem empty_filter_is_absent:
  "load_libraries (Some '''') language only_new w = load_libraries None language only_new w
   \<and> load_libraries region (Some '''') only_new w = load_libraries region None only_new w
   \<and> fst (load_libraries (Some '''') None True seeded) \<noteq> []"
proof -
  have "keeps (Some '''') language only_new = keeps None language only_new"
    by (rule ext) (simp add: keeps_def truthy_def)
  moreover have "keeps region (Some '''') only_new = keeps region None only_new"
    by (rule ext) (simp add: keeps_def truthy_def)
  moreover have "fst (load_libraries (Some '''') None True seeded) \<noteq> []"
    by code_simp
  ultimately show ?thesis
    by (simp add: load_libraries_def Let_def split: option.splits)
qed

subsection \<open>The name in the e-mail\<close>

lemma templates_get_FR: "templates_get (Some ''FR'') = template_FR"
  by (simp add: templates_get_def templates_def)

lemma generate_email_language_FR:
  "email_language (generate_email library (Some ''FR'')) = Some ''FR''"
  by (simp add: generate_email_def truthy_def Let_def)

text \<open>
  Claim C8, as amended. \<^verbatim>\<open>generate_email\<close> puts the placeholder \<^verbatim>\<open>'Bibliotecario/a'\<close>
  into the body only when the record has no key \<^verbatim>\<open>nombre\<close> at all; a name that is
  present is put into the body as it is, whatever it is, for every template chosen.
\<close>

theorem generate_email_name:
  "(lookup library ''nombre'' = None \<longrightarrow>
      email_body (generate_email library language)
        = body (templates_get (email_language (generate_email library language)))
            ''Bibliotecario/a'')
   \<and> (lookup library ''nombre'' = Some (Some n) \<longrightarrow>
      email_body (generate_email library language)
        = body (templates_get (email_language (generate_email library language))) n)"
  by (simp add: generate_email_def Let_def get_default_def py_str_def)

theorem generate_email_name_witness:
  "lookup [] ''nombre'' = None
   \<and> email_body (generate_email [] (Some ''FR'')) = body template_FR ''Bibliotecario/a''
   \<and> lookup [Field ''nombre'' (Some ''Mediatheque'')] ''nombre'' = Some (Some ''Mediatheque'')
   \<and> email_body (generate_email [Field ''nombre'' (Some ''Mediatheque'')] (Some ''FR''))
       = body template_FR ''Mediatheque''"
  using generate_email_name [of "[]" "Some ''FR''"]
    generate_email_name [of "[Field ''nombre'' (Some ''Mediatheque'')]" "Some ''FR''" "''Mediatheque''"]
  by (simp add: generate_email_language_FR templates_get_FR)

text \<open>
  Claim C8 as stated fails: for a record whose name is the empty string the French body
  is the template with nothing in the field (it starts \<^verbatim>\<open>Cher/Chere ,\<close> with the accent),
  not the template with the placeholder.
\<close>

theorem generate_email_empty_name_counterexample:
  "email_body (generate_email [Field ''nombre'' (Some '''')] (Some ''FR'')) = body template_FR ''''
   \<and> email_body (generate_email [Field ''nombre'' (Some '''')] (Some ''FR''))
        \<noteq> body template_FR ''Bibliotecario/a''
   \<and> take 14 (email_body (generate_email [Field ''nombre'' (Some '''')] (Some ''FR'')))
        = ''Cher/Ch'' @ [CHR 0xC3, CHR 0xA8] @ ''re ,'' @ [CHR 0x0A]"
proof -
  have a: "email_body (generate_email [Field ''nombre'' (Some '''')] (Some ''FR''))
      = body template_FR ''''"
    by (simp add: generate_email_def truthy_def templates_get_FR get_default_def py_str_def)
  have b: "body template_FR '''' \<noteq> body template_FR ''Bibliotecario/a''"
    by (simp add: template_FR_def)
  have c: "take 14 (body template_FR '''') = ''Cher/Ch'' @ [CHR 0xC3, CHR 0xA8] @ ''re ,'' @ [CHR 0x0A]"
    by (simp add: template_FR_def)
  from a b c show ?thesis by simp
qed

subsection \<open>Reading and writing a table\<close>

lemma row_of_Nil [simp]: "row_of [] [] = []"
  by (simp add: row_of_def)

lemma row_of_Cons [simp]: "row_of (k # h) (v # r) = Field k (Some v) # row_of h r"
  by (simp add: row_of_def)

lemma keys_row_of: "length h = length r \<Longrightarrow> keys (row_of h r) = map Some h"
  by (induction h r rule: list_induct2) (simp_all add: keys_def)

lemma setitem_new: "Some k \<notin> set (keys d) \<Longrightarrow> setitem d k v = d @ [Field k v]"
proof (induction d)
  case Nil
  show ?case by simp
next
  case (Cons e d)
  then show ?case by (cases e) (auto simp add: keys_def)
qed

lemma foldl_setitem_zip:
  "length h = length r \<Longrightarrow> distinct h \<Longrightarrow> Some ` set h \<inter> set (keys d) = {} \<Longrightarrow>
   foldl (\<lambda>d (k, v). setitem d k (Some v)) d (zip h r) = d @ row_of h r"
proof (induction h r arbitrary: d rule: list_induct2)
  case Nil
  show ?case by simp
next
  case (Cons k h v r)
  have new: "Some k \<notin> set (keys d)"
    using Cons.prems by auto
  have "Some ` set h \<inter> set (keys (d @ [Field k (Some v)])) = {}"
    using Cons.prems by (auto simp add: keys_def)
  with Cons have "foldl (\<lambda>d (k, v). setitem d k (Some v)) (d @ [Field k (Some v)]) (zip h r)
      = (d @ [Field k (Some v)]) @ row_of h r"
    by simp
  then show ?case
    by (simp add: setitem_new [OF new])
qed

lemma dict_zip_row_of: "length h = length r \<Longrightarrow> distinct h \<Longrightarrow> dict_zip h r = row_of h r"
  using foldl_setitem_zip [of h r "[]"] by (simp add: dict_zip_def keys_def)

lemma read_row_row_of: "length r = length h \<Longrightarrow> distinct h \<Longrightarrow> read_row h r = row_of h r"
  by (simp add: read_row_def dict_zip_row_of)

lemma DictReader_table:
  assumes "distinct h" "h \<noteq> []" "\<forall>r \<in> set recs. length r = length h"
  shows "DictReader (h # recs) = map (row_of h) recs"
proof -
  have "filter (\<lambda>r. r \<noteq> []) recs = recs"
    using assms by (auto simp add: filter_id_conv)
  then show ?thesis
    using assms by (simp add: DictReader_def read_row_row_of)
qed

lemma store_table_cases:
  assumes "store_table f"
  obtains h recs where "f = h # recs" "distinct h" "h \<noteq> []"
    "\<forall>r \<in> set recs. length r = length h" "DictReader f = map (row_of h) recs"
proof -
  from assms obtain h recs where f: "f = h # recs"
    by (cases f) (auto simp add: store_table_def)
  with assms have d: "distinct h" and len: "\<forall>r \<in> set recs. length r = length h"
    and e: "''email'' \<in> set h"
    by (simp_all add: store_table_def)
  from e have ne: "h \<noteq> []" by auto
  from d ne len have "DictReader f = map (row_of h) recs"
    unfolding f by (rule DictReader_table)
  with f d ne len show thesis
    by (rule that)
qed

lemma find_entry_row_of:
  "length h = length r \<Longrightarrow> distinct h \<Longrightarrow> i < length h \<Longrightarrow>
   find_entry (row_of h r) (Some (h ! i)) = Some (Field (h ! i) (Some (r ! i)))"
proof (induction h r arbitrary: i rule: list_induct2)
  case Nil
  then show ?case by simp
next
  case (Cons k h v r)
  then show ?case by (cases i) auto
qed

lemma dict_to_list_row_of:
  assumes "length h = length r" "distinct h"
  shows "dict_to_list rt (map Some h) (row_of h r) = Inr r"
proof -
  have "map (\<lambda>k. case find_entry (row_of h r) k of None \<Rightarrow> '''' | Some e \<Rightarrow> entry_text rt e)
          (map Some h) = r"
    using assms by (intro nth_equalityI) (simp_all add: find_entry_row_of)
  then show ?thesis
    using assms by (simp add: dict_to_list_def keys_row_of)
qed

lemma writerows_table:
  "distinct h \<Longrightarrow> \<forall>r \<in> set recs. length r = length h \<Longrightarrow>
   writerows rt (map Some h) f (map (row_of h) recs) = (f @ recs, None)"
proof (induction recs arbitrary: f)
  case Nil
  show ?case by simp
next
  case (Cons r recs)
  then show ?case by (simp add: dict_to_list_row_of)
qed

lemma write_dicts_table:
  assumes "distinct h" "\<forall>r \<in> set recs. length r = length h" "recs \<noteq> []"
  shows "write_dicts rt (map (row_of h) recs) = (h # recs, None)"
proof -
  obtain r rs where recs: "recs = r # rs"
    using assms(3) by (cases recs) auto
  have k: "keys (row_of h r) = map Some h"
    using assms(2) recs by (simp add: keys_row_of)
  have "map key_text (map Some h) = h"
    by (simp add: key_text_def comp_def)
  then show ?thesis
    using writerows_table [OF assms(1,2), of rt "[h]"] k recs
    by (simp add: write_dicts_def)
qed

subsection \<open>Marking a record\<close>

lemma length_set_column [simp]: "length h = length r \<Longrightarrow> length (set_column h k v r) = length r"
  by (simp add: set_column_def)




lemma length_mark_record [simp]:
  "length h = length r \<Longrightarrow> length (mark_record h date status notes r) = length r"
  by (simp add: mark_record_def)






lemma lookup_row_of:
  "length h = length r \<Longrightarrow> k \<in> set h \<Longrightarrow> \<exists>x. lookup (row_of h r) k = Some (Some x)"
  by (induction h r rule: list_induct2) auto

lemma get_row_of:
  "length h = length r \<Longrightarrow> k \<in> set h \<Longrightarrow>
   lookup (row_of h r) k = Some (get (row_of h r) k)"
  using lookup_row_of [of h r k] by (auto simp add: get_def)



subsection \<open>\<^verbatim>\<open>track_contact\<close> on a store table\<close>

lemma update_first_none:
  "\<forall>d \<in> set ds. \<exists>v. lookup d ''email'' = Some v \<and> v \<noteq> em \<Longrightarrow>
   update_first rt em status notes ds n = Inr (ds, n)"
  by (induction ds) auto


text \<open>No record has the address: the file is written back as it was, if it has a record.\<close>

lemma track_contact_not_found:
  assumes f: "libraries_db w = Some (h # recs)" and t: "store_table (h # recs)"
    and ne: "recs \<noteq> []"
    and no: "\<forall>r \<in> set recs. get (row_of h r) ''email'' \<noteq> em"
  shows "track_contact rt em status notes w = (None, w)"
proof -
  from t have d: "distinct h" and len: "\<forall>r \<in> set recs. length r = length h"
    and e: "''email'' \<in> set h"
    by (simp_all add: store_table_def)
  from e have "h \<noteq> []" by auto
  with d len have rd: "DictReader (h # recs) = map (row_of h) recs"
    by (simp add: DictReader_table)
  have "\<forall>d \<in> set (map (row_of h) recs). \<exists>v. lookup d ''email'' = Some v \<and> v \<noteq> em"
    using no len e by (auto simp add: get_row_of)
  then have "update_first rt em status notes (map (row_of h) recs) (ticks w)
      = Inr (map (row_of h) recs, ticks w)"
    by (rule update_first_none)
  then show ?thesis
    using f rd write_dicts_table [OF d len ne, of rt]
    by (simp add: track_contact_def)
qed







text \<open>
  For the rows alone the restriction to a store with a record is not needed: on every
  store table, an address that no record has leaves the rows that \<^verbatim>\<open>DictReader\<close> reads as
  they were. What a store without records loses is its header.
\<close>

lemma unknown_email_keeps_rows:
  assumes t: "store_table f" and f: "libraries_db w = Some f"
    and no: "\<forall>d \<in> set (DictReader f). get d ''email'' \<noteq> Some e"
  shows "fst (track_contact rt (Some e) status notes w) = None
    \<and> (\<exists>f'. libraries_db (snd (track_contact rt (Some e) status notes w)) = Some f'
          \<and> DictReader f' = DictReader f)"
proof -
  from t obtain h recs where fh: "f = h # recs"
    and rd: "DictReader f = map (row_of h) recs"
    by (rule store_table_cases)
  show ?thesis
  proof (cases "recs = []")
    case True
    with f fh show ?thesis
      by (simp add: track_contact_def DictReader_def write_dicts_def)
  next
    case False
    from no rd have "\<forall>r \<in> set recs. get (row_of h r) ''email'' \<noteq> Some e"
      by auto
    from track_contact_not_found [OF f [unfolded fh] t [unfolded fh] False this, of rt status "notes"]
    show ?thesis
      using f by simp
  qed
qed








subsection \<open>\<^verbatim>\<open>batch_outreach\<close>\<close>

lemma track_contact_other_files:
  "track_contact rt em status notes w = (e, w') \<Longrightarrow>
   campaigns_db w' = campaigns_db w \<and> reports w' = reports w"
  by (auto simp add: track_contact_def Let_def split: option.splits sum.splits prod.splits)

lemma outreach_loop_other_files:
  "campaigns_db (snd (outreach_loop rt language dry_run libs acc w)) = campaigns_db w
   \<and> reports (snd (outreach_loop rt language dry_run libs acc w)) = reports w"
proof (induction libs arbitrary: acc w)
  case Nil
  show ?case by simp
next
  case (Cons library rest)
  show ?case
    using Cons.IH
    by (auto simp add: Let_def now_def split: option.splits prod.splits
        dest!: track_contact_other_files)
qed

text \<open>A simulated run never reaches \<^verbatim>\<open>track_contact\<close>, so the loop leaves the store file alone.\<close>

lemma outreach_loop_dry_run:
  "libraries_db (snd (outreach_loop rt language True libs acc w)) = libraries_db w"
proof (induction libs arbitrary: acc w)
  case Nil
  show ?case by simp
next
  case (Cons library rest)
  show ?case
    by (simp add: Let_def now_def Cons.IH split: option.splits prod.splits)
qed

text \<open>
  Claim C2. When the filtered list of libraries is empty, \<^verbatim>\<open>batch_outreach\<close> returns the
  result with status \<^verbatim>\<open>'no_libraries'\<close> and writes neither a campaign record nor a
  report: the state is the one \<^verbatim>\<open>load_libraries\<close> left. When the list is not empty, a
  result that is returned has the status \<^verbatim>\<open>'success'\<close>, a different string.
\<close>

theorem batch_outreach_no_libraries:
  "(fst (load_libraries region language True w) = [] \<longrightarrow>
      batch_outreach rt region language max_emails dry_run w
        = (Inr (No_libraries ''No hay bibliotecas disponibles con los filtros seleccionados''),
           create_library_template w)
      \<and> campaigns_db (snd (batch_outreach rt region language max_emails dry_run w)) = campaigns_db w
      \<and> reports (snd (batch_outreach rt region language max_emails dry_run w)) = reports w)
   \<and> (fst (load_libraries region language True w) \<noteq> [] \<longrightarrow>
        fst (batch_outreach rt region language max_emails dry_run w) = Inr r \<longrightarrow>
        result_status r = ''success'' \<and> result_status r \<noteq> ''no_libraries'')"
  by (auto simp add: batch_outreach_def load_libraries_def create_library_template_def Let_def
      split: prod.splits option.splits sum.splits)

theorem batch_outreach_no_libraries_witness:
  "fst (load_libraries (Some ''Nonexistent'') None True seeded) = []
   \<and> batch_outreach example_runtime (Some ''Nonexistent'') None 50 False seeded
       = (Inr (No_libraries ''No hay bibliotecas disponibles con los filtros seleccionados''), seeded)
   \<and> fst (load_libraries (Some ''Europa'') None True seeded) \<noteq> []
   \<and> fst (batch_outreach example_runtime (Some ''Europa'') None 1 True seeded)
       = Inr (Success 1 ''library_campaign_20240302_090000.csv'' example_campaign)
   \<and> result_status (Success 1 ''library_campaign_20240302_090000.csv'' example_campaign) = ''success''"
proof -
  have a: "fst (load_libraries (Some ''Nonexistent'') None True seeded) = []"
    by code_simp
  have b: "fst (load_libraries (Some ''Europa'') None True seeded) \<noteq> []"
    by code_simp
  have c: "fst (batch_outreach example_runtime (Some ''Europa'') None 1 True seeded)
       = Inr (Success 1 ''library_campaign_20240302_090000.csv'' example_campaign)"
    by code_simp
  have s: "create_library_template seeded = seeded"
    by (simp add: create_library_template_def seeded_def)
  from batch_outreach_no_libraries
    [of "Some ''Nonexistent''" None seeded example_runtime 50 False] a s
  have "batch_outreach example_runtime (Some ''Nonexistent'') None 50 False seeded
       = (Inr (No_libraries ''No hay bibliotecas disponibles con los filtros seleccionados''), seeded)"
    by simp
  moreover from batch_outreach_no_libraries
    [of "Some ''Europa''" None seeded example_runtime 1 True
      "Success 1 ''library_campaign_20240302_090000.csv'' example_campaign"] b c
  have "result_status (Success 1 ''library_campaign_20240302_090000.csv'' example_campaign) = ''success''"
    by blast
  ultimately show ?thesis
    using a b c by simp
qed

text \<open>
  Claim C5. With \<^verbatim>\<open>dry_run=True\<close>, \<^verbatim>\<open>batch_outreach\<close> leaves the store file as
  \<^verbatim>\<open>load_libraries\<close> found it, whatever it holds, whatever the filters and however the run
  ends; \<^verbatim>\<open>track_contact\<close> is never called. A run that returns with success has all the
  same appended its campaign record, marked as a simulation, to the campaign file and
  written its results to the report file it names.
\<close>

theorem dry_run_keeps_store:
  "libraries_db (snd (batch_outreach rt region language max_emails True w))
     = libraries_db (create_library_template w)
   \<and> (libraries_db w = Some f \<longrightarrow>
        libraries_db (snd (batch_outreach rt region language max_emails True w)) = Some f)
   \<and> (fst (batch_outreach rt region language max_emails True w) = Inr (Success n report_file c) \<longrightarrow>
        modo c = ''simulacion''
        \<and> n = length (resultados c)
        \<and> campaigns_db (snd (batch_outreach rt region language max_emails True w))
            = Some ((case campaigns_db w of None \<Rightarrow> [] | Some cs \<Rightarrow> cs) @ [c])
        \<and> reports (snd (batch_outreach rt region language max_emails True w)) report_file
            = Some (fst (write_dicts rt (resultados c))))"
proof -
  let ?libs = "slice_to max_emails (fst (load_libraries region language True w))"
  let ?w0 = "create_library_template w"
  have w0: "snd (load_libraries region language True w) = ?w0"
    by (simp add: load_libraries_def Let_def)
  have other: "campaigns_db ?w0 = campaigns_db w" "reports ?w0 = reports w"
    by (simp_all add: create_library_template_def split: option.splits)
  have a: "libraries_db (snd (batch_outreach rt region language max_emails True w))
      = libraries_db ?w0"
    using outreach_loop_dry_run [of rt language ?libs "[]" ?w0] w0
    by (auto simp add: batch_outreach_def Let_def now_def save_campaign_def
        split: prod.splits option.splits sum.splits)
  have b: "libraries_db w = Some f \<longrightarrow> libraries_db ?w0 = Some f"
    by (simp add: create_library_template_def)
  have c: "fst (batch_outreach rt region language max_emails True w) = Inr (Success n report_file c) \<longrightarrow>
        modo c = ''simulacion''
        \<and> n = length (resultados c)
        \<and> campaigns_db (snd (batch_outreach rt region language max_emails True w))
            = Some ((case campaigns_db w of None \<Rightarrow> [] | Some cs \<Rightarrow> cs) @ [c])
        \<and> reports (snd (batch_outreach rt region language max_emails True w)) report_file
            = Some (fst (write_dicts rt (resultados c)))"
    using outreach_loop_other_files [of rt language True ?libs "[]" ?w0] w0 other
    by (auto simp add: batch_outreach_def Let_def now_def save_campaign_def
        split: prod.splits option.splits sum.splits if_splits)
  from a b c show ?thesis
    by simp
qed

theorem dry_run_keeps_store_witness:
  "libraries_db seeded = Some template
   \<and> libraries_db (snd (batch_outreach example_runtime (Some ''Europa'') None 1 True seeded))
       = Some template
   \<and> fst (batch_outreach example_runtime (Some ''Europa'') None 1 True seeded)
       = Inr (Success 1 ''library_campaign_20240302_090000.csv'' example_campaign)
   \<and> campaigns_db (snd (batch_outreach example_runtime (Some ''Europa'') None 1 True seeded))
       = Some [example_campaign]
   \<and> map_option length
       (reports (snd (batch_outreach example_runtime (Some ''Europa'') None 1 True seeded))
          ''library_campaign_20240302_090000.csv'')
       = Some 2"
proof -
  have s: "libraries_db seeded = Some template" "campaigns_db seeded = None"
    by (simp_all add: seeded_def)
  have c: "fst (batch_outreach example_runtime (Some ''Europa'') None 1 True seeded)
       = Inr (Success 1 ''library_campaign_20240302_090000.csv'' example_campaign)"
    by code_simp
  have l: "length (fst (write_dicts example_runtime (resultados example_campaign))) = 2"
    by code_simp
  from dry_run_keeps_store
    [of example_runtime "Some ''Europa''" None 1 seeded template 1
      "''library_campaign_20240302_090000.csv''" example_campaign] s c l
  show ?thesis
    by (simp add: create_library_template_def)
qed

end
